theory Spec2Isabelle
  imports Complex_Main
begin

section \<open>Volatility forecaster: returns processing, GARCH handler, diagnostics\<close>

text \<open>
  The development embeds two Python modules: \<^verbatim>\<open>data_utils.py\<close> (class
  \<^verbatim>\<open>DataProcessor\<close>) and \<^verbatim>\<open>python_app/garch_models.py\<close> (class
  \<^verbatim>\<open>GARCHModel\<close>).  Binary floating point is idealised: a finite double is a
  real number and rounding is not modelled.  Where the source relies on the special
  values of IEEE arithmetic (pandas marks a missing observation by NaN and
  \<^verbatim>\<open>dropna\<close> removes exactly those), the values are kept apart in the type
  \<open>fl\<close>.  Functions of pandas, numpy, scipy and arch are not part of the
  repository; they enter as parameters.
\<close>

subsection \<open>Floating values with NaN and infinities\<close>

datatype fl = Fin real | PInf | NInf | NaN

fun isna :: "fl \<Rightarrow> bool" where
  "isna NaN = True"
| "isna _ = False"

text \<open>IEEE division: a zero divisor gives an infinity or NaN, never an exception.\<close>

fun fdiv :: "fl \<Rightarrow> fl \<Rightarrow> fl" where
  "fdiv NaN _ = NaN"
| "fdiv _ NaN = NaN"
| "fdiv (Fin a) (Fin b) =
     (if b \<noteq> 0 then Fin (a / b)
      else if 0 < a then PInf else if a < 0 then NInf else NaN)"
| "fdiv (Fin a) PInf = Fin 0"
| "fdiv (Fin a) NInf = Fin 0"
| "fdiv PInf (Fin b) = (if 0 \<le> b then PInf else NInf)"
| "fdiv NInf (Fin b) = (if 0 \<le> b then NInf else PInf)"
| "fdiv PInf PInf = NaN"
| "fdiv PInf NInf = NaN"
| "fdiv NInf PInf = NaN"
| "fdiv NInf NInf = NaN"

fun fsub :: "fl \<Rightarrow> fl \<Rightarrow> fl" where
  "fsub NaN _ = NaN"
| "fsub _ NaN = NaN"
| "fsub (Fin a) (Fin b) = Fin (a - b)"
| "fsub (Fin a) PInf = NInf"
| "fsub (Fin a) NInf = PInf"
| "fsub PInf PInf = NaN"
| "fsub PInf _ = PInf"
| "fsub NInf NInf = NaN"
| "fsub NInf _ = NInf"

fun fmul :: "fl \<Rightarrow> fl \<Rightarrow> fl" where
  "fmul NaN _ = NaN"
| "fmul _ NaN = NaN"
| "fmul (Fin a) (Fin b) = Fin (a * b)"
| "fmul (Fin a) PInf = (if 0 < a then PInf else if a < 0 then NInf else NaN)"
| "fmul (Fin a) NInf = (if 0 < a then NInf else if a < 0 then PInf else NaN)"
| "fmul PInf (Fin b) = (if 0 < b then PInf else if b < 0 then NInf else NaN)"
| "fmul NInf (Fin b) = (if 0 < b then NInf else if b < 0 then PInf else NaN)"
| "fmul PInf PInf = PInf"
| "fmul PInf NInf = NInf"
| "fmul NInf PInf = NInf"
| "fmul NInf NInf = PInf"

text \<open>\<^verbatim>\<open>np.log\<close>: NaN below zero, minus infinity at zero.\<close>

fun flog :: "fl \<Rightarrow> fl" where
  "flog (Fin a) = (if 0 < a then Fin (ln a) else if a = 0 then NInf else NaN)"
| "flog PInf = PInf"
| "flog NInf = NaN"
| "flog NaN = NaN"

subsection \<open>Series and frames\<close>

text \<open>
  A pandas Series is a list of labelled values.  The label of a row is its position in
  the frame the series was taken from, so labels are unique and increasing, as the dates
  of a price history are.  A DataFrame is the list of its columns in order, each with
  its name; column names are taken to be distinct.
\<close>

type_synonym series = "(nat \<times> fl) list"

type_synonym dataframe = "(string \<times> fl list) list"

definition column :: "fl list \<Rightarrow> series" where
  "column vs = zip [0..<length vs] vs"

text \<open>\<^verbatim>\<open>s.shift(1)\<close>: every value moves one row down, the first row becomes NaN.\<close>

definition shift1 :: "series \<Rightarrow> series" where
  "shift1 s = zip (map fst s) (NaN # map snd s)"

definition dropna :: "series \<Rightarrow> series" where
  "dropna s = filter (\<lambda>(i, v). \<not> isna v) s"

text \<open>Arithmetic on two series with the same labels, and on a series and a scalar.\<close>

definition sdiv :: "series \<Rightarrow> series \<Rightarrow> series" where
  "sdiv a b = map (\<lambda>((i, x), (j, y)). (i, fdiv x y)) (zip a b)"

definition slog :: "series \<Rightarrow> series" where
  "slog s = map (\<lambda>(i, v). (i, flog v)) s"

text \<open>\<^verbatim>\<open>s.pct_change()\<close> on a series without gaps: \<open>s / s.shift(1) - 1\<close>.\<close>

definition pct_change :: "series \<Rightarrow> series" where
  "pct_change s = map (\<lambda>(i, v). (i, fsub v (Fin 1))) (sdiv s (shift1 s))"

text \<open>
  \<^verbatim>\<open>pd.DataFrame({...})\<close> of series aligns them on the union of their labels; a
  column without a value at a label holds NaN there.
\<close>

definition union_index :: "series list \<Rightarrow> nat list" where
  "union_index cols = sort (remdups (concat (map (map fst) cols)))"

definition reindex :: "nat list \<Rightarrow> series \<Rightarrow> series" where
  "reindex idx s = map (\<lambda>i. (i, case map_of s i of None \<Rightarrow> NaN | Some v \<Rightarrow> v)) idx"

record returns_frame =
  log_returns :: series
  simple_returns :: series
  price :: series

definition make_returns_frame :: "series \<Rightarrow> series \<Rightarrow> series \<Rightarrow> returns_frame" where
  "make_returns_frame lr sr pr =
     (let idx = union_index [lr, sr, pr]
      in \<lparr>log_returns = reindex idx lr, simple_returns = reindex idx sr,
          price = reindex idx pr\<rparr>)"

subsection \<open>Exceptions and what a method hands back\<close>

text \<open>
  Every public method wraps its body in \<^verbatim>\<open>try: ... except Exception as e:
  print(f"<stage>: {str(e)}"); return None\<close>.  The body of a method ends in one of four
  ways: \<open>Ok v\<close>, it returns \<open>v\<close>; \<open>Exn e\<close>, it raises \<open>e\<close>; \<open>Quiet\<close>, it
  returns \<^verbatim>\<open>None\<close> itself; \<open>Inexact\<close>, an operation left the finite reals
  (a zero divisor, the root of a negative number, a nan from the library).  Python goes
  on with nan or inf in the last case, or raises where both operands are Python numbers,
  and this model does not follow it.

  What the caller sees is an \<open>outcome\<close>: \<open>Value v\<close>; \<open>Failed (Some (p, e))\<close>, the line
  \<open>p: str(e)\<close> went to standard output and \<^verbatim>\<open>None\<close> came back;
  \<open>Failed None\<close>, \<^verbatim>\<open>None\<close> came back and nothing was printed;
  \<open>Not_finite\<close>, the run left the model.

  \<open>Raised m\<close> is an exception coming out of a library call, with its message;
  \<open>AttributeError\<close> is what reading a field of \<^verbatim>\<open>None\<close> raises.
\<close>

datatype exn = ValueError string | IndexError | AttributeError | Raised string

datatype 'a outcome = Value 'a | Failed "(string \<times> exn) option" | Not_finite

datatype 'a body = Ok 'a | Exn exn | Quiet | Inexact

fun guard :: "string \<Rightarrow> 'a body \<Rightarrow> 'a outcome" where
  "guard p (Ok v) = Value v"
| "guard p (Exn e) = Failed (Some (p, e))"
| "guard p Quiet = Failed None"
| "guard p Inexact = Not_finite"

subsection \<open>\<^verbatim>\<open>DataProcessor.calculate_returns\<close>\<close>

text \<open>
  The price column: \<^verbatim>\<open>'Adj Close'\<close> if the frame has it, else
  \<^verbatim>\<open>'Close'\<close>, else the last column (\<^verbatim>\<open>iloc[:, -1]\<close>, an IndexError on
  a frame without columns).
\<close>

definition select_prices :: "dataframe \<Rightarrow> fl list body" where
  "select_prices price_data =
     (case map_of price_data ''Adj Close'' of
        Some c \<Rightarrow> Ok c
      | None \<Rightarrow>
          (case map_of price_data ''Close'' of
             Some c \<Rightarrow> Ok c
           | None \<Rightarrow>
               if price_data = [] then Exn IndexError else Ok (snd (last price_data))))"

text \<open>The statements after the column is chosen; none of them can raise.\<close>

definition returns_of_prices :: "fl list \<Rightarrow> returns_frame" where
  "returns_of_prices vs =
     (let prices = column vs;
          log_returns = dropna (slog (sdiv prices (shift1 prices)));
          simple_returns = dropna (pct_change prices)
      in make_returns_frame log_returns (drop 1 simple_returns) (drop 1 prices))"

definition calculate_returns_body :: "dataframe \<Rightarrow> returns_frame body" where
  "calculate_returns_body price_data =
     (case select_prices price_data of
        Ok vs \<Rightarrow> Ok (returns_of_prices vs)
      | Exn e \<Rightarrow> Exn e
      | Quiet \<Rightarrow> Quiet
      | Inexact \<Rightarrow> Inexact)"

definition calculate_returns :: "dataframe \<Rightarrow> returns_frame outcome" where
  "calculate_returns price_data =
     guard ''Error calculating returns'' (calculate_returns_body price_data)"

subsection \<open>The libraries behind \<^verbatim>\<open>GARCHModel\<close>\<close>

text \<open>
  The object \<^verbatim>\<open>arch_model(...)\<close> builds is kept as the arguments it was built
  from.  A fitted model is kept as the fields the repository reads from it; they are in
  the units of the series that was fitted.
\<close>

record arch_spec =
  spec_y :: "fl list"
  spec_vol :: string
  spec_p :: int
  spec_q :: int
  spec_dist :: string

record model_fit =
  params :: "(string \<times> real) list"
  aic :: real
  bic :: real
  loglikelihood :: real
  nobs :: nat
  resid :: "real list"
  conditional_volatility :: "real list"

text \<open>
  The library calls, as parameters.  \<open>Inl m\<close> is an exception with message \<open>m\<close>.
  \<^item> \<open>arch_model y vol p q dist\<close> and \<open>arch_fit\<close>: \<^verbatim>\<open>arch.arch_model\<close> and the
    \<^verbatim>\<open>fit\<close> method of its result.
  \<^item> \<open>arch_forecast fit horizon method simulations draws\<close>: the
    \<^verbatim>\<open>forecast\<close> method, giving the matrix \<^verbatim>\<open>forecasts.variance.values\<close>
    row by row; \<open>draws\<close> stands for the random numbers the simulation consumes.
  \<^item> \<open>series_autocorr xs lag\<close>: \<^verbatim>\<open>pd.Series.autocorr\<close>; \<open>None\<close> is nan.
  \<^item> \<open>chi2_cdf x k\<close>, \<open>chi2_ppf q k\<close>: \<^verbatim>\<open>scipy.stats.chi2.cdf\<close> and
    \<^verbatim>\<open>ppf\<close>.
  \<^item> \<open>linalg_solve A b\<close>: \<^verbatim>\<open>np.linalg.solve\<close>; \<open>None\<close> is
    \<^verbatim>\<open>LinAlgError\<close>.
\<close>

record libs =
  arch_model :: "fl list \<Rightarrow> string \<Rightarrow> int \<Rightarrow> int \<Rightarrow> string \<Rightarrow> string + arch_spec"
  arch_fit :: "arch_spec \<Rightarrow> string + model_fit"
  arch_forecast :: "model_fit \<Rightarrow> int \<Rightarrow> string \<Rightarrow> nat \<Rightarrow> nat \<Rightarrow> string + real list list"
  series_autocorr :: "real list \<Rightarrow> nat \<Rightarrow> real option"
  chi2_cdf :: "real \<Rightarrow> nat \<Rightarrow> real"
  chi2_ppf :: "real \<Rightarrow> nat \<Rightarrow> real"
  linalg_solve :: "real list list \<Rightarrow> real list \<Rightarrow> real list option"

subsection \<open>\<^verbatim>\<open>GARCHModel.__init__\<close> and \<^verbatim>\<open>fit_garch\<close>\<close>

record garch_state =
  model :: "arch_spec option"
  fitted_model :: "model_fit option"

definition init :: garch_state where
  "init = \<lparr>model = None, fitted_model = None\<rparr>"

definition insufficient_data :: exn where
  "insufficient_data =
     ValueError ''Insufficient data for GARCH modeling (minimum 50 observations required)''"

text \<open>
  The body of the \<^verbatim>\<open>try\<close>, with the two assignments to \<^verbatim>\<open>self\<close>: the
  first is made before \<^verbatim>\<open>fit\<close> is called and stays when \<^verbatim>\<open>fit\<close> raises.
\<close>

definition fit_garch_body ::
  "libs \<Rightarrow> garch_state \<Rightarrow> fl list \<Rightarrow> int \<Rightarrow> int \<Rightarrow> string \<Rightarrow> garch_state \<times> model_fit body" where
  "fit_garch_body L self returns p q distn =
     (let returns_clean = filter (\<lambda>v. \<not> isna v) returns
      in if length returns_clean < 50 then (self, Exn insufficient_data)
         else
           (let returns_scaled = map (\<lambda>v. fmul v (Fin 100)) returns_clean
            in case arch_model L returns_scaled ''GARCH'' p q distn of
                 Inl m \<Rightarrow> (self, Exn (Raised m))
               | Inr mdl \<Rightarrow>
                   (let self1 = self\<lparr>model := Some mdl\<rparr>
                    in case arch_fit L mdl of
                         Inl m \<Rightarrow> (self1, Exn (Raised m))
                       | Inr f \<Rightarrow> (self1\<lparr>fitted_model := Some f\<rparr>, Ok f))))"

definition fit_garch ::
  "libs \<Rightarrow> garch_state \<Rightarrow> fl list \<Rightarrow> int \<Rightarrow> int \<Rightarrow> string \<Rightarrow> garch_state \<times> model_fit outcome" where
  "fit_garch L self returns p q distn =
     (let (self', b) = fit_garch_body L self returns p q distn
      in (self', guard ''Error fitting GARCH model'' b))"

subsection \<open>\<^verbatim>\<open>forecast_volatility\<close>\<close>

text \<open>
  The methods below receive the fitted model as an argument; \<open>None\<close> is Python's
  \<^verbatim>\<open>None\<close>, which \<^verbatim>\<open>fit_garch\<close> hands back after a failure.
\<close>

record forecast_result =
  volatility_forecast :: "real list"
  variance_forecast :: "real list"
  forecast_horizon :: int

definition forecast_volatility_body ::
  "libs \<Rightarrow> model_fit option \<Rightarrow> int \<Rightarrow> nat \<Rightarrow> forecast_result body" where
  "forecast_volatility_body L fit horizon draws =
     (case fit of
        None \<Rightarrow> Exn AttributeError
      | Some f \<Rightarrow>
          (case arch_forecast L f horizon ''simulation'' 1000 draws of
             Inl m \<Rightarrow> Exn (Raised m)
           | Inr variance \<Rightarrow>
               if variance = [] then Exn IndexError
               else
                 (let variance_forecast = last variance
                  in if list_ex (\<lambda>v. v < 0) variance_forecast then Inexact
                     else Ok \<lparr>volatility_forecast = map (\<lambda>v. sqrt v / 100) variance_forecast,
                              variance_forecast = map (\<lambda>v. v / 10000) variance_forecast,
                              forecast_horizon = horizon\<rparr>)))"

definition forecast_volatility ::
  "libs \<Rightarrow> model_fit option \<Rightarrow> int \<Rightarrow> nat \<Rightarrow> forecast_result outcome" where
  "forecast_volatility L fit horizon draws =
     guard ''Error generating forecasts'' (forecast_volatility_body L fit horizon draws)"

subsection \<open>\<^verbatim>\<open>get_model_summary\<close>\<close>

record model_summary =
  parameters :: "string \<rightharpoonup> real"
  summary_aic :: real
  summary_bic :: real
  summary_loglikelihood :: real
  num_observations :: nat

text \<open>The loop \<^verbatim>\<open>for param_name, param_value in params.items()\<close> fills a dict.\<close>

definition param_dict :: "(string \<times> real) list \<Rightarrow> (string \<rightharpoonup> real)" where
  "param_dict items = fold (\<lambda>(param_name, param_value) d. d(param_name \<mapsto> param_value)) items Map.empty"

definition get_model_summary_body :: "model_fit option \<Rightarrow> model_summary body" where
  "get_model_summary_body fit =
     (case fit of
        None \<Rightarrow> Exn AttributeError
      | Some f \<Rightarrow>
          Ok \<lparr>parameters = param_dict (params f), summary_aic = aic f, summary_bic = bic f,
              summary_loglikelihood = loglikelihood f, num_observations = nobs f\<rparr>)"

definition get_model_summary :: "model_fit option \<Rightarrow> model_summary outcome" where
  "get_model_summary fit = guard ''Error extracting model summary'' (get_model_summary_body fit)"

subsection \<open>\<^verbatim>\<open>calculate_residuals\<close>\<close>

text \<open>
  \<^verbatim>\<open>residuals / conditional_volatility\<close> divides two series row by row.  A zero
  volatility, or two series of different lengths, give nan or inf entries.
\<close>

definition calculate_residuals_body :: "model_fit option \<Rightarrow> real list body" where
  "calculate_residuals_body fit =
     (case fit of
        None \<Rightarrow> Exn AttributeError
      | Some f \<Rightarrow>
          (let residuals = resid f; conditional_volatility = conditional_volatility f
           in if length residuals \<noteq> length conditional_volatility
                 \<or> list_ex (\<lambda>v. v = 0) conditional_volatility
              then Inexact
              else Ok (map (\<lambda>(r, v). r / v) (zip residuals conditional_volatility))))"

definition calculate_residuals :: "model_fit option \<Rightarrow> real list outcome" where
  "calculate_residuals fit = guard ''Error calculating residuals'' (calculate_residuals_body fit)"

subsection \<open>\<^verbatim>\<open>ljung_box_test\<close>\<close>

text \<open>The number of lags is a non-negative integer.\<close>

record test_result =
  test_statistic :: real
  p_value :: real
  test_lags :: nat
  critical_value :: real

text \<open>
  The statements after the residuals are there.  The list \<open>autocorr\<close> is filled by the
  loop over \<^verbatim>\<open>range(1, lags + 1)\<close> and read back by position in the comprehension
  over \<^verbatim>\<open>range(lags)\<close>; the divisor \<^verbatim>\<open>n - i - 1\<close> is an integer and may be
  zero or negative.
\<close>

definition ljung_box_body :: "libs \<Rightarrow> real list \<Rightarrow> nat \<Rightarrow> test_result body" where
  "ljung_box_body L std_residuals lags =
     (let squared_residuals = map (\<lambda>z. z ^ 2) std_residuals;
          n = length squared_residuals;
          autocorr = map (\<lambda>lag. series_autocorr L squared_residuals lag) [1..<lags + 1]
      in if list_ex (\<lambda>c. c = None) autocorr
            \<or> list_ex (\<lambda>i. int n - int i - 1 = 0) [0..<lags]
         then Inexact
         else
           (let lb_stat = real n * (real n + 2) *
                  sum_list (map (\<lambda>i. (the (autocorr ! i)) ^ 2 / real_of_int (int n - int i - 1))
                    [0..<lags]);
                p_value = 1 - chi2_cdf L lb_stat lags
            in Ok \<lparr>test_statistic = lb_stat, p_value = p_value, test_lags = lags,
                    critical_value = chi2_ppf L 0.95 lags\<rparr>))"

text \<open>
  When \<^verbatim>\<open>calculate_residuals\<close> fails it has printed its own line, and the test
  returns \<^verbatim>\<open>None\<close> after it.
\<close>

definition ljung_box_test :: "libs \<Rightarrow> model_fit option \<Rightarrow> nat \<Rightarrow> test_result outcome" where
  "ljung_box_test L fit lags =
     (case calculate_residuals fit of
        Value std_residuals \<Rightarrow>
          guard ''Error performing Ljung-Box test'' (ljung_box_body L std_residuals lags)
      | Failed r \<Rightarrow> Failed r
      | Not_finite \<Rightarrow> Not_finite)"

subsection \<open>\<^verbatim>\<open>arch_lm_test\<close>\<close>

text \<open>Matrices are lists of rows.  \<open>slice xs a b\<close> is \<^verbatim>\<open>xs[a:b]\<close> for \<open>0 \<le> a, b\<close>.\<close>

definition ones :: "nat \<Rightarrow> nat \<Rightarrow> real list list" where
  "ones r c = replicate r (replicate c 1)"

definition slice :: "'a list \<Rightarrow> nat \<Rightarrow> nat \<Rightarrow> 'a list" where
  "slice xs a b = take (b - a) (drop a xs)"

definition set_column :: "real list list \<Rightarrow> nat \<Rightarrow> real list \<Rightarrow> real list list" where
  "set_column X j v = map (\<lambda>(row, x). row[j := x]) (zip X v)"

text \<open>The loop \<^verbatim>\<open>for i in range(lags): X[:, i + 1] = ...\<close>.\<close>

definition lag_matrix :: "real list \<Rightarrow> nat \<Rightarrow> real list list" where
  "lag_matrix squared_residuals lags =
     (let n = length squared_residuals
      in fold (\<lambda>i X. set_column X (i + 1) (slice squared_residuals (lags - i - 1) (n - i - 1)))
           [0..<lags] (ones (n - lags) (lags + 1)))"

text \<open>\<^verbatim>\<open>X.T @ X\<close>, \<^verbatim>\<open>X.T @ y\<close> and \<^verbatim>\<open>X @ beta\<close> for a matrix of \<open>c\<close> columns.\<close>

definition gram :: "real list list \<Rightarrow> nat \<Rightarrow> real list list" where
  "gram X c = map (\<lambda>a. map (\<lambda>b. sum_list (map (\<lambda>row. row ! a * row ! b) X)) [0..<c]) [0..<c]"

definition moment :: "real list list \<Rightarrow> nat \<Rightarrow> real list \<Rightarrow> real list" where
  "moment X c y = map (\<lambda>a. sum_list (map (\<lambda>(row, v). row ! a * v) (zip X y))) [0..<c]"

definition mat_vec :: "real list list \<Rightarrow> real list \<Rightarrow> real list" where
  "mat_vec X beta = map (\<lambda>row. sum_list (map (\<lambda>(x, b). x * b) (zip row beta))) X"

definition mean :: "real list \<Rightarrow> real" where
  "mean y = sum_list y / real (length y)"

definition sum_sq_diff :: "real list \<Rightarrow> real list \<Rightarrow> real" where
  "sum_sq_diff y f = sum_list (map (\<lambda>(a, b). (a - b) ^ 2) (zip y f))"

definition arch_lm_body :: "libs \<Rightarrow> real list \<Rightarrow> nat \<Rightarrow> test_result body" where
  "arch_lm_body L std_residuals lags =
     (let squared_residuals = map (\<lambda>z. z ^ 2) std_residuals;
          n = length squared_residuals
      in if n < lags then Exn (ValueError ''negative dimensions are not allowed'')
         else
           (let X = lag_matrix squared_residuals lags;
                y = drop lags squared_residuals
            in case linalg_solve L (gram X (lags + 1)) (moment X (lags + 1) y) of
                 None \<Rightarrow> Quiet
               | Some beta \<Rightarrow>
                   (let fitted_values = mat_vec X beta;
                        ssr = sum_sq_diff y fitted_values;
                        tss = sum_sq_diff y (replicate (length y) (mean y))
                    in if tss = 0 then Inexact
                       else
                         (let r_squared = 1 - ssr / tss;
                              lm_stat = real (n - lags) * r_squared;
                              p_value = 1 - chi2_cdf L lm_stat lags
                          in Ok \<lparr>test_statistic = lm_stat, p_value = p_value, test_lags = lags,
                                  critical_value = chi2_ppf L 0.95 lags\<rparr>))))"

definition arch_lm_test :: "libs \<Rightarrow> model_fit option \<Rightarrow> nat \<Rightarrow> test_result outcome" where
  "arch_lm_test L fit lags =
     (case calculate_residuals fit of
        Value std_residuals \<Rightarrow>
          guard ''Error performing ARCH-LM test'' (arch_lm_body L std_residuals lags)
      | Failed r \<Rightarrow> Failed r
      | Not_finite \<Rightarrow> Not_finite)"

subsection \<open>A handler in use: calls one after another\<close>





subsection \<open>Stand-ins for the libraries\<close>

text \<open>
  Concrete values for the examples below.  The fitted model is one whose standardized
  residuals are \<open>1, 2, 3, 1\<close>; \<open>cramer2\<close> is \<^verbatim>\<open>np.linalg.solve\<close> on systems of two
  equations, the only ones the examples pose; the other functions are arbitrary
  functions of the right type, and no property below depends on them.
\<close>

definition sample_fit :: model_fit where
  "sample_fit =
     \<lparr>params = [(''mu'', 0.05), (''omega'', 0.04), (''alpha[1]'', 0.1), (''beta[1]'', 0.8)],
      aic = 100, bic = 110, loglikelihood = - 46, nobs = 4,
      resid = [1, 4, 3, 1], conditional_volatility = [1, 2, 1, 1]\<rparr>"

definition flat_fit :: model_fit where
  "flat_fit = sample_fit\<lparr>nobs := 3, resid := [1, 1, 1], conditional_volatility := [1, 1, 1]\<rparr>"

fun cramer2 :: "real list list \<Rightarrow> real list \<Rightarrow> real list option" where
  "cramer2 [[a, b], [c, d]] [e, f] =
     (if a * d - b * c = 0 then None
      else Some [(e * d - b * f) / (a * d - b * c), (a * f - e * c) / (a * d - b * c)])"
| "cramer2 _ _ = None"

definition sample_libs :: libs where
  "sample_libs =
     \<lparr>arch_model = (\<lambda>y vol p q d.
        Inr \<lparr>spec_y = y, spec_vol = vol, spec_p = p, spec_q = q, spec_dist = d\<rparr>),
      arch_fit = (\<lambda>m. Inr sample_fit),
      arch_forecast = (\<lambda>f h m s d. Inr [replicate (nat h) 4]),
      series_autocorr = (\<lambda>xs k. Some (1 / 2)),
      chi2_cdf = (\<lambda>x k. if x \<le> 0 then 0 else x / (1 + x)),
      chi2_ppf = (\<lambda>q k. real k),
      linalg_solve = cramer2\<rparr>"

definition failing_libs :: libs where
  "failing_libs = sample_libs\<lparr>arch_fit := (\<lambda>m. Inl ''The optimizer returned code 4'')\<rparr>"

subsection \<open>Notions used in the statements\<close>

text \<open>The caller received \<^verbatim>\<open>None\<close>.\<close>

fun returns_None :: "'a outcome \<Rightarrow> bool" where
  "returns_None (Failed _) = True"
| "returns_None _ = False"

text \<open>The failure was printed under one of the given stage messages.\<close>

definition printed_failure :: "string list \<Rightarrow> 'a outcome \<Rightarrow> bool" where
  "printed_failure stages out = (\<exists>p e. p \<in> set stages \<and> out = Failed (Some (p, e)))"


subsection \<open>The diagnostic statistics as the specification writes them\<close>

text \<open>
  Ljung-Box: \<open>Q = N (N + 2) \<Sum>\<^bsub>k = 1..L\<^esub> \<rho>\<^sub>k\<^sup>2 / (N - k)\<close>.
\<close>

definition ljung_box_Q :: "nat \<Rightarrow> nat \<Rightarrow> (nat \<Rightarrow> real) \<Rightarrow> real" where
  "ljung_box_Q N L rho = real N * (real N + 2) * (\<Sum>k = 1..L. (rho k) ^ 2 / (real N - real k))"


definition r_squared :: "real list list \<Rightarrow> real list \<Rightarrow> real list \<Rightarrow> real" where
  "r_squared X y beta =
     1 - sum_sq_diff y (mat_vec X beta) / sum_sq_diff y (replicate (length y) (mean y))"

subsection \<open>Log returns as the specification writes them, and notions of the proofs\<close>

text \<open>The returns the specification asks for: \<open>ln (p\<^sub>t / p\<^sub>t\<^sub>-\<^sub>1)\<close> for every row but the first.\<close>

definition log_ratios :: "real list \<Rightarrow> real list" where
  "log_ratios ps = map (\<lambda>t. ln (ps ! t / ps ! (t - 1))) [1..<length ps]"

text \<open>The ratio of a price to the one before, as the shifted series gives it: NaN in the first row.\<close>

definition raw_ratio :: "fl list \<Rightarrow> nat \<Rightarrow> fl" where
  "raw_ratio vs t = fdiv (vs ! t) (if t = 0 then NaN else vs ! (t - 1))"


section \<open>Properties\<close>

subsection \<open>What \<^verbatim>\<open>calculate_returns\<close> puts in the column of log returns\<close>

lemma fdiv_NaN_right [simp]: "fdiv x NaN = NaN"
  by (cases x) simp_all

lemma raw_ratio_0 [simp]: "raw_ratio vs 0 = NaN"
  by (simp add: raw_ratio_def)

lemma raw_ratio_pos: "0 < t \<Longrightarrow> raw_ratio vs t = fdiv (vs ! t) (vs ! (t - 1))"
  by (simp add: raw_ratio_def)

lemma raw_log:
  "slog (sdiv (column vs) (shift1 (column vs))) =
     map (\<lambda>t. (t, flog (raw_ratio vs t))) [0..<length vs]"
  by (rule nth_equalityI)
     (simp_all add: slog_def sdiv_def shift1_def column_def raw_ratio_def nth_Cons
        split: nat.splits)

lemma raw_pct:
  "pct_change (column vs) =
     map (\<lambda>t. (t, fsub (raw_ratio vs t) (Fin 1))) [0..<length vs]"
  by (rule nth_equalityI)
     (simp_all add: pct_change_def sdiv_def shift1_def column_def raw_ratio_def nth_Cons
        split: nat.splits)

lemma map_of_tab:
  "map_of (map (\<lambda>t. (t, g t)) [m..<n]) i = (if m \<le> i \<and> i < n then Some (g i) else None)"
  by (simp add: map_of_map_restrict restrict_map_def)

lemma map_of_filter_snd:
  "distinct (map fst s) \<Longrightarrow>
   map_of (filter (\<lambda>(i, v). P v) s) k =
     (case map_of s k of None \<Rightarrow> None | Some v \<Rightarrow> if P v then Some v else None)"
proof (induction s)
  case Nil
  then show ?case by simp
next
  case (Cons a s)
  obtain i v where a: "a = (i, v)" by (cases a)
  from Cons.prems a have "map_of s i = None"
    by (simp add: map_of_eq_None_iff)
  with Cons a show ?case
    by (auto split: option.splits)
qed

lemma map_of_dropna_tab:
  "map_of (dropna (map (\<lambda>t. (t, g t)) [m..<n])) i =
     (if m \<le> i \<and> i < n \<and> \<not> isna (g i) then Some (g i) else None)"
  unfolding dropna_def
  by (subst map_of_filter_snd) (simp_all add: comp_def map_of_tab)

text \<open>Aligning on the rows after the first gives back the rows that were dropped, as NaN.\<close>

lemma reindex_dropna_tab:
  "reindex [1..<n] (dropna (map (\<lambda>t. (t, g t)) [0..<n])) = map (\<lambda>t. (t, g t)) [1..<n]"
  unfolding reindex_def
  apply (rule map_cong[OF refl])
  apply (simp add: map_of_dropna_tab)
  apply (case_tac "g x"; simp)
  done

lemma drop1_column: "drop 1 (column vs) = map (\<lambda>t. (t, vs ! t)) [1..<length vs]"
  by (rule nth_equalityI) (simp_all add: column_def)

lemma union_index_sub:
  assumes "set (map fst a) \<subseteq> {1..<n}" "set (map fst b) \<subseteq> {1..<n}" "map fst c = [1..<n]"
  shows "union_index [a, b, c] = [1..<n]"
proof -
  have "set (concat (map (map fst) [a, b, c])) = {1..<n}"
    using assms by auto
  then have "sorted_list_of_set (set (concat (map (map fst) [a, b, c]))) = [1..<n]"
    by (simp only: sorted_list_of_set_range)
  then show ?thesis
    by (simp only: union_index_def sorted_list_of_set_sort_remdups)
qed

lemma labels_dropna_from_1:
  assumes "isna (g 0)"
  shows "set (map fst (dropna (map (\<lambda>t. (t, g t)) [0..<n]))) \<subseteq> {1..<n}"
proof -
  have "i \<noteq> 0" if "i < n" "\<not> isna (g i)" for i
    using that assms by (cases "i = 0") simp_all
  then show ?thesis
    by (fastforce simp: dropna_def)
qed

lemma frame_index:
  "union_index [dropna (slog (sdiv (column vs) (shift1 (column vs)))),
                drop 1 (dropna (pct_change (column vs))), drop 1 (column vs)] = [1..<length vs]"
proof (rule union_index_sub)
  show "set (map fst (dropna (slog (sdiv (column vs) (shift1 (column vs)))))) \<subseteq> {1..<length vs}"
    unfolding raw_log by (rule labels_dropna_from_1) simp
  have "set (map fst (dropna (pct_change (column vs)))) \<subseteq> {1..<length vs}"
    unfolding raw_pct by (rule labels_dropna_from_1) simp
  moreover have "set (map fst (drop 1 s)) \<subseteq> set (map fst s)" for s :: series
    by (metis drop_map set_drop_subset)
  ultimately show "set (map fst (drop 1 (dropna (pct_change (column vs))))) \<subseteq> {1..<length vs}"
    by blast
  show "map fst (drop 1 (column vs)) = [1..<length vs]"
    unfolding drop1_column by (simp add: comp_def)
qed

lemma log_returns_column:
  "log_returns (returns_of_prices vs) =
     map (\<lambda>t. (t, flog (fdiv (vs ! t) (vs ! (t - 1))))) [1..<length vs]"
proof -
  have "log_returns (returns_of_prices vs) =
      reindex [1..<length vs] (dropna (map (\<lambda>t. (t, flog (raw_ratio vs t))) [0..<length vs]))"
    unfolding returns_of_prices_def make_returns_frame_def Let_def frame_index
    by (simp add: raw_log)
  also have "\<dots> = map (\<lambda>t. (t, flog (raw_ratio vs t))) [1..<length vs]"
    by (rule reindex_dropna_tab)
  also have "\<dots> = map (\<lambda>t. (t, flog (fdiv (vs ! t) (vs ! (t - 1))))) [1..<length vs]"
    by (rule map_cong[OF refl]) (simp add: raw_ratio_pos)
  finally show ?thesis .
qed

lemma select_prices_cases:
  "(map_of price_data ''Adj Close'' = Some a \<longrightarrow> select_prices price_data = Ok a) \<and>
   (map_of price_data ''Adj Close'' = None \<and> map_of price_data ''Close'' = Some c
      \<longrightarrow> select_prices price_data = Ok c) \<and>
   (map_of price_data ''Adj Close'' = None \<and> map_of price_data ''Close'' = None \<and>
      price_data \<noteq> [] \<longrightarrow> select_prices price_data = Ok (snd (last price_data)))"
  by (simp add: select_prices_def)

lemma calculate_returns_Ok:
  "select_prices price_data = Ok vs \<Longrightarrow> calculate_returns price_data = Value (returns_of_prices vs)"
  by (simp add: calculate_returns_def calculate_returns_body_def)

subsection \<open>The price column\<close>

text \<open>
  Claim C10.  \<^verbatim>\<open>calculate_returns\<close> takes the prices from the column
  \<^verbatim>\<open>'Adj Close'\<close> when the frame has one; otherwise from \<^verbatim>\<open>'Close'\<close> when
  the frame has one; otherwise from the last column of the frame.  In each case the
  call succeeds and prints nothing, so returns of unadjusted or unrelated data come
  back like any others.
\<close>

theorem price_column_precedence:
  "(map_of price_data ''Adj Close'' = Some a \<longrightarrow>
      calculate_returns price_data = Value (returns_of_prices a)) \<and>
   (map_of price_data ''Adj Close'' = None \<and> map_of price_data ''Close'' = Some c \<longrightarrow>
      calculate_returns price_data = Value (returns_of_prices c)) \<and>
   (map_of price_data ''Adj Close'' = None \<and> map_of price_data ''Close'' = None \<and>
      price_data \<noteq> [] \<longrightarrow>
      calculate_returns price_data = Value (returns_of_prices (snd (last price_data))))"
  using select_prices_cases[of price_data a c] by (auto intro: calculate_returns_Ok)

theorem price_column_precedence_witness:
  "calculate_returns [(''Close'', [Fin 3, Fin 4]), (''Adj Close'', [Fin 1, Fin 2])]
     = Value (returns_of_prices [Fin 1, Fin 2]) \<and>
   calculate_returns
       [(''Open'', [Fin 5, Fin 6]), (''Close'', [Fin 3, Fin 4]), (''Volume'', [Fin 7, Fin 8])]
     = Value (returns_of_prices [Fin 3, Fin 4]) \<and>
   calculate_returns [(''Open'', [Fin 5, Fin 6]), (''Volume'', [Fin 7, Fin 8])]
     = Value (returns_of_prices [Fin 7, Fin 8])"
  using
    price_column_precedence
      [of "[(''Close'', [Fin 3, Fin 4]), (''Adj Close'', [Fin 1, Fin 2])]" "[Fin 1, Fin 2]"]
    price_column_precedence
      [of "[(''Open'', [Fin 5, Fin 6]), (''Close'', [Fin 3, Fin 4]), (''Volume'', [Fin 7, Fin 8])]"
          _ "[Fin 3, Fin 4]"]
    price_column_precedence [of "[(''Open'', [Fin 5, Fin 6]), (''Volume'', [Fin 7, Fin 8])]"]
  by simp

subsection \<open>Log returns of a positive price history\<close>

lemma sum_log_ratios:
  assumes "\<forall>p\<in>set ps. 0 < p" "Suc k < length ps"
  shows "sum_list (take (Suc k) (log_ratios ps)) = ln (ps ! Suc k) - ln (ps ! 0)"
  using assms(2)
proof (induction k)
  case 0
  then have "0 < length ps" "1 < length ps" by auto
  then have "0 < ps ! 0" "0 < ps ! 1" using assms(1) by (blast intro: nth_mem)+
  with 0 show ?case
    by (simp add: log_ratios_def take_map ln_div upt_rec[of 1])
next
  case (Suc k)
  then have "Suc k < length ps" "Suc (Suc k) < length ps" by simp_all
  then have pos: "0 < ps ! Suc k" "0 < ps ! Suc (Suc k)"
    using assms(1) by (blast intro: nth_mem)+
  have "take (Suc (Suc k)) (log_ratios ps) = take (Suc k) (log_ratios ps) @ [log_ratios ps ! Suc k]"
    using Suc.prems by (simp add: take_Suc_conv_app_nth log_ratios_def)
  moreover have "log_ratios ps ! Suc k = ln (ps ! Suc (Suc k)) - ln (ps ! Suc k)"
    using Suc.prems pos by (simp add: log_ratios_def ln_div)
  ultimately show ?case
    using Suc by simp
qed

text \<open>
  Claim C8.  For a price column of \<open>N \<ge> 1\<close> finite, strictly positive prices the
  column of log returns has \<open>N - 1\<close> rows, row \<open>t\<close> holds \<open>ln (p\<^sub>t / p\<^sub>t\<^sub>-\<^sub>1)\<close>, and the
  exponential of every partial sum of the returns is the ratio of the price reached to
  the first price; the last partial sum gives \<open>p\<^sub>N / p\<^sub>1\<close>.  Over the reals the
  reconstruction is exact.
\<close>

theorem log_returns_round_trip:
  assumes "select_prices price_data = Ok (map Fin ps)" and "ps \<noteq> []" and "\<forall>p\<in>set ps. 0 < p"
  shows "\<exists>fr. calculate_returns price_data = Value fr \<and>
           length (log_returns fr) = length ps - 1 \<and>
           map snd (log_returns fr) = map Fin (log_ratios ps) \<and>
           (\<forall>k<length (log_ratios ps).
              exp (sum_list (take (Suc k) (log_ratios ps))) = ps ! Suc k / ps ! 0)"
proof -
  have pos: "0 < ps ! t" if "t < length ps" for t
    using assms(3) that by (simp add: all_set_conv_all_nth)
  have "map snd (log_returns (returns_of_prices (map Fin ps))) = map Fin (log_ratios ps)"
  proof -
    have "flog (fdiv (Fin (ps ! t)) (Fin (ps ! (t - 1)))) = Fin (ln (ps ! t / ps ! (t - 1)))"
      if "t \<in> set [1..<length ps]" for t
    proof -
      from that have "0 < ps ! t" "0 < ps ! (t - 1)" by (auto intro: pos)
      then show ?thesis by simp
    qed
    then show ?thesis
      unfolding log_returns_column log_ratios_def
      by (auto simp: comp_def less_imp_diff_less)
  qed
  moreover have "exp (sum_list (take (Suc k) (log_ratios ps))) = ps ! Suc k / ps ! 0"
    if "k < length (log_ratios ps)" for k
  proof -
    from that have k: "Suc k < length ps" by (simp add: log_ratios_def)
    then have "0 < length ps" by auto
    with k have "0 < ps ! Suc k" "0 < ps ! 0" by (blast intro: pos)+
    then show ?thesis
      by (simp add: sum_log_ratios[OF assms(3) k] exp_diff)
  qed
  ultimately show ?thesis
    using calculate_returns_Ok[OF assms(1)] by (simp add: log_returns_column)
qed

theorem log_returns_round_trip_witness:
  "select_prices [(''Close'', map Fin [1, 2, 4])] = Ok (map Fin [1, 2, 4]) \<and>
   (\<exists>fr. calculate_returns [(''Close'', map Fin [1, 2, 4])] = Value fr \<and>
      length (log_returns fr) = 2 \<and>
      map snd (log_returns fr) = map Fin (log_ratios [1, 2, 4]) \<and>
      exp (sum_list (take 2 (log_ratios [1, 2, 4]))) = 4)"
proof -
  have sel: "select_prices [(''Close'', map Fin [1, 2, 4])] = Ok (map Fin [1, 2, 4])"
    by (simp add: select_prices_def)
  have len: "length (log_ratios [1, 2, 4]) = 2"
    by (simp add: log_ratios_def)
  from log_returns_round_trip[OF sel] obtain fr where
    fr: "calculate_returns [(''Close'', map Fin [1, 2, 4])] = Value fr"
      "length (log_returns fr) = length [1, 2, 4::real] - 1"
      "map snd (log_returns fr) = map Fin (log_ratios [1, 2, 4])"
      "\<forall>k<length (log_ratios [1, 2, 4]).
         exp (sum_list (take (Suc k) (log_ratios [1, 2, 4]))) = [1, 2, 4] ! Suc k / [1, 2, 4] ! 0"
    by auto
  have "(1::nat) < length (log_ratios [1, 2, 4])"
    by (simp add: len)
  with fr(4) have "exp (sum_list (take (Suc 1) (log_ratios [1, 2, 4]))) = [1, 2, 4] ! Suc 1 / [1, 2, 4::real] ! 0"
    by blast
  then have "exp (sum_list (take 2 (log_ratios [1, 2, 4]))) = 4"
    by (simp add: numeral_2_eq_2)
  with sel fr(1-3) show ?thesis
    by auto
qed


subsection \<open>No validation in \<^verbatim>\<open>calculate_returns\<close>\<close>




subsection \<open>The fifty observations of \<^verbatim>\<open>fit_garch\<close>\<close>

text \<open>
  Claim C7.  With fewer than 50 observations left after the NaN entries are dropped,
  \<^verbatim>\<open>fit_garch\<close> fails with its insufficient-data error (the \<^verbatim>\<open>ValueError\<close>
  raised at the length check, printed under the message of the fitting stage, and
  \<^verbatim>\<open>None\<close> returned), without calling the library and without touching the
  handler.  With 50 or more the estimation is attempted: the outcome is the library's,
  on the series scaled by 100, and it is never the insufficient-data failure.
\<close>

theorem fit_garch_insufficient_data:
  "(length (filter (\<lambda>v. \<not> isna v) returns) < 50 \<longrightarrow>
      fit_garch L self returns p q d =
        (self, Failed (Some (''Error fitting GARCH model'', insufficient_data)))) \<and>
   (50 \<le> length (filter (\<lambda>v. \<not> isna v) returns) \<longrightarrow>
      snd (fit_garch L self returns p q d) \<noteq>
        Failed (Some (''Error fitting GARCH model'', insufficient_data)) \<and>
      snd (fit_garch L self returns p q d) =
        (case arch_model L (map (\<lambda>v. fmul v (Fin 100)) (filter (\<lambda>v. \<not> isna v) returns))
                ''GARCH'' p q d of
           Inl m \<Rightarrow> Failed (Some (''Error fitting GARCH model'', Raised m))
         | Inr mdl \<Rightarrow>
             (case arch_fit L mdl of
                Inl m \<Rightarrow> Failed (Some (''Error fitting GARCH model'', Raised m))
              | Inr f \<Rightarrow> Value f)))"
  by (auto simp: fit_garch_def fit_garch_body_def Let_def insufficient_data_def split: sum.splits)

text \<open>Forty-nine observations and a NaN fail; fifty observations and a NaN are fitted.\<close>

theorem fit_garch_insufficient_data_witness:
  "fit_garch sample_libs init (NaN # replicate 49 (Fin 0.01)) 1 1 ''normal'' =
     (init, Failed (Some (''Error fitting GARCH model'', insufficient_data))) \<and>
   snd (fit_garch sample_libs init (NaN # replicate 50 (Fin 0.01)) 1 1 ''normal'') =
     Value sample_fit"
  using fit_garch_insufficient_data[of "NaN # replicate 49 (Fin 0.01)" sample_libs init 1 1 "''normal''"]
    fit_garch_insufficient_data[of "NaN # replicate 50 (Fin 0.01)" sample_libs init 1 1 "''normal''"]
  by (simp add: sample_libs_def)


subsection \<open>What stays on the handler between calls\<close>








subsection \<open>How failures reach the caller\<close>

lemma guard_None: "returns_None (guard p b) \<Longrightarrow> printed_failure [p] (guard p b) \<or> b = Quiet"
  by (cases b) (simp_all add: printed_failure_def)

lemma forecast_body_not_Quiet: "forecast_volatility_body L fit horizon draws \<noteq> Quiet"
  by (simp add: forecast_volatility_body_def Let_def split: option.splits sum.splits)

lemma summary_body_not_Quiet: "get_model_summary_body fit \<noteq> Quiet"
  by (simp add: get_model_summary_body_def split: option.splits)

lemma residuals_body_not_Quiet: "calculate_residuals_body fit \<noteq> Quiet"
  by (simp add: calculate_residuals_body_def Let_def split: option.splits)

lemma ljung_box_body_not_Quiet: "ljung_box_body L z k \<noteq> Quiet"
  by (simp add: ljung_box_body_def Let_def)

lemma fit_garch_body_not_Quiet: "snd (fit_garch_body L s returns p q d) \<noteq> Quiet"
  by (simp add: fit_garch_body_def Let_def split: sum.splits)

lemma fit_garch_None:
  assumes "returns_None (snd (fit_garch L s returns p q d))"
  shows "printed_failure [''Error fitting GARCH model''] (snd (fit_garch L s returns p q d))"
proof -
  have eq: "snd (fit_garch L s returns p q d) =
      guard ''Error fitting GARCH model'' (snd (fit_garch_body L s returns p q d))"
    by (simp add: fit_garch_def split_beta)
  from assms guard_None[of "''Error fitting GARCH model''" "snd (fit_garch_body L s returns p q d)"]
  show ?thesis
    unfolding eq using fit_garch_body_not_Quiet by blast
qed

lemma residuals_None:
  "returns_None (calculate_residuals fit) \<Longrightarrow>
   printed_failure [''Error calculating residuals''] (calculate_residuals fit)"
  unfolding calculate_residuals_def using guard_None residuals_body_not_Quiet by blast

lemma ljung_box_None:
  assumes "returns_None (ljung_box_test L fit k)"
  shows "printed_failure [''Error calculating residuals'', ''Error performing Ljung-Box test'']
            (ljung_box_test L fit k)"
proof (cases "calculate_residuals fit")
  case (Value z)
  with assms have "returns_None (guard ''Error performing Ljung-Box test'' (ljung_box_body L z k))"
    by (simp add: ljung_box_test_def)
  then have "printed_failure [''Error performing Ljung-Box test'']
      (guard ''Error performing Ljung-Box test'' (ljung_box_body L z k))"
    using guard_None ljung_box_body_not_Quiet by blast
  then show ?thesis
    using Value by (auto simp: ljung_box_test_def printed_failure_def)
next
  case (Failed r)
  then have "returns_None (calculate_residuals fit)" by simp
  then have "printed_failure [''Error calculating residuals''] (calculate_residuals fit)"
    by (rule residuals_None)
  then show ?thesis
    using Failed by (auto simp: ljung_box_test_def printed_failure_def)
next
  case Not_finite
  with assms show ?thesis by (simp add: ljung_box_test_def)
qed

lemma arch_lm_None:
  assumes "returns_None (arch_lm_test L fit k)"
  shows "printed_failure [''Error calculating residuals'', ''Error performing ARCH-LM test'']
            (arch_lm_test L fit k) \<or> arch_lm_test L fit k = Failed None"
proof (cases "calculate_residuals fit")
  case (Value z)
  with assms have "returns_None (guard ''Error performing ARCH-LM test'' (arch_lm_body L z k))"
    by (simp add: arch_lm_test_def)
  then have "printed_failure [''Error performing ARCH-LM test'']
      (guard ''Error performing ARCH-LM test'' (arch_lm_body L z k)) \<or> arch_lm_body L z k = Quiet"
    by (rule guard_None)
  then show ?thesis
    using Value by (auto simp: arch_lm_test_def printed_failure_def)
next
  case (Failed r)
  then have "returns_None (calculate_residuals fit)" by simp
  then have "printed_failure [''Error calculating residuals''] (calculate_residuals fit)"
    by (rule residuals_None)
  then show ?thesis
    using Failed by (auto simp: arch_lm_test_def printed_failure_def)
next
  case Not_finite
  with assms show ?thesis by (simp add: arch_lm_test_def)
qed

lemma arch_lm_singular:
  assumes "calculate_residuals fit = Value z" and "k \<le> length z"
    and "linalg_solve L (gram (lag_matrix (map (\<lambda>x. x ^ 2) z) k) (k + 1))
           (moment (lag_matrix (map (\<lambda>x. x ^ 2) z) k) (k + 1) (drop k (map (\<lambda>x. x ^ 2) z))) = None"
  shows "arch_lm_test L fit k = Failed None"
  using assms by (simp add: arch_lm_test_def arch_lm_body_def Let_def)

text \<open>
  Claim C5 asks for typed failures that tell the caller their kind, and for a singular
  matrix to be reported.  Too few observations and a failure of the optimizer both end
  in the same \<^verbatim>\<open>None\<close> for the caller, the kind being only in the printed text;
  and a singular matrix in the ARCH-LM regression ends in \<^verbatim>\<open>None\<close> with nothing
  printed at all.
\<close>

theorem failures_not_typed_counterexample:
  "snd (fit_garch sample_libs init (replicate 49 (Fin 0.01)) 1 1 ''normal'') =
     Failed (Some (''Error fitting GARCH model'', insufficient_data)) \<and>
   snd (fit_garch failing_libs init (replicate 50 (Fin 0.01)) 1 1 ''normal'') =
     Failed (Some (''Error fitting GARCH model'', Raised ''The optimizer returned code 4'')) \<and>
   returns_None (snd (fit_garch sample_libs init (replicate 49 (Fin 0.01)) 1 1 ''normal'')) \<and>
   returns_None (snd (fit_garch failing_libs init (replicate 50 (Fin 0.01)) 1 1 ''normal'')) \<and>
   arch_lm_test sample_libs (Some flat_fit) 1 = Failed None"
  by (simp add: fit_garch_def fit_garch_body_def sample_libs_def failing_libs_def
      arch_lm_test_def arch_lm_body_def calculate_residuals_def calculate_residuals_body_def
      flat_fit_def sample_fit_def lag_matrix_def ones_def slice_def set_column_def gram_def
      moment_def)

text \<open>
  Claim C5 as amended.  Every failure inside a core operation is caught inside it: when
  the caller receives \<^verbatim>\<open>None\<close>, one line was printed, made of the message of the
  stage (for a diagnostic test, of the test or of the residual computation it starts
  with) and the text of the exception, whatever its kind; the one exception is the
  ARCH-LM test, which may return \<^verbatim>\<open>None\<close> with nothing printed, and does so when
  the solver finds the matrix of the regression singular.
\<close>

theorem failures_are_printed_and_None:
  "(returns_None (snd (fit_garch L s returns p q d)) \<longrightarrow>
      printed_failure [''Error fitting GARCH model''] (snd (fit_garch L s returns p q d))) \<and>
   (returns_None (forecast_volatility L fit horizon draws) \<longrightarrow>
      printed_failure [''Error generating forecasts''] (forecast_volatility L fit horizon draws)) \<and>
   (returns_None (get_model_summary fit) \<longrightarrow>
      printed_failure [''Error extracting model summary''] (get_model_summary fit)) \<and>
   (returns_None (calculate_residuals fit) \<longrightarrow>
      printed_failure [''Error calculating residuals''] (calculate_residuals fit)) \<and>
   (returns_None (ljung_box_test L fit k) \<longrightarrow>
      printed_failure [''Error calculating residuals'', ''Error performing Ljung-Box test'']
        (ljung_box_test L fit k)) \<and>
   (returns_None (arch_lm_test L fit k) \<longrightarrow>
      printed_failure [''Error calculating residuals'', ''Error performing ARCH-LM test'']
        (arch_lm_test L fit k) \<or> arch_lm_test L fit k = Failed None) \<and>
   (calculate_residuals fit = Value z \<and> k \<le> length z \<and>
    linalg_solve L (gram (lag_matrix (map (\<lambda>x. x ^ 2) z) k) (k + 1))
      (moment (lag_matrix (map (\<lambda>x. x ^ 2) z) k) (k + 1) (drop k (map (\<lambda>x. x ^ 2) z))) = None \<longrightarrow>
      arch_lm_test L fit k = Failed None)"
proof (intro conjI impI)
  assume "returns_None (forecast_volatility L fit horizon draws)"
  then show "printed_failure [''Error generating forecasts''] (forecast_volatility L fit horizon draws)"
    unfolding forecast_volatility_def using guard_None forecast_body_not_Quiet by blast
next
  assume "returns_None (get_model_summary fit)"
  then show "printed_failure [''Error extracting model summary''] (get_model_summary fit)"
    unfolding get_model_summary_def using guard_None summary_body_not_Quiet by blast
qed (auto intro: fit_garch_None residuals_None ljung_box_None arch_lm_singular
      dest: arch_lm_None)

theorem failures_are_printed_and_None_witness:
  "printed_failure [''Error fitting GARCH model'']
     (snd (fit_garch sample_libs init (replicate 49 (Fin 0.01)) 1 1 ''normal'')) \<and>
   printed_failure [''Error generating forecasts''] (forecast_volatility sample_libs None 5 0) \<and>
   printed_failure [''Error extracting model summary''] (get_model_summary None) \<and>
   printed_failure [''Error calculating residuals''] (calculate_residuals None) \<and>
   printed_failure [''Error calculating residuals'', ''Error performing Ljung-Box test'']
     (ljung_box_test sample_libs None 1) \<and>
   calculate_residuals (Some flat_fit) = Value [1, 1, 1] \<and>
   arch_lm_test sample_libs (Some flat_fit) 1 = Failed None"
proof -
  have res: "calculate_residuals (Some flat_fit) = Value [1, 1, 1]"
    by (simp add: calculate_residuals_def calculate_residuals_body_def flat_fit_def sample_fit_def)
  have sing: "linalg_solve sample_libs
      (gram (lag_matrix (map (\<lambda>x. x ^ 2) [1, 1, 1]) 1) (1 + 1))
      (moment (lag_matrix (map (\<lambda>x. x ^ 2) [1, 1, 1]) 1) (1 + 1)
         (drop 1 (map (\<lambda>x. x ^ 2) [1, 1, 1]))) = None"
    by (simp add: sample_libs_def lag_matrix_def ones_def slice_def set_column_def gram_def
        moment_def)
  have none: "returns_None (snd (fit_garch sample_libs init (replicate 49 (Fin 0.01)) 1 1 ''normal''))"
    "returns_None (forecast_volatility sample_libs None 5 0)"
    "returns_None (get_model_summary None)"
    "returns_None (calculate_residuals None)"
    "returns_None (ljung_box_test sample_libs None 1)"
    by (simp_all add: fit_garch_def fit_garch_body_def forecast_volatility_def
        forecast_volatility_body_def get_model_summary_def get_model_summary_body_def
        calculate_residuals_def calculate_residuals_body_def ljung_box_test_def)
  from none
    failures_are_printed_and_None
      [of sample_libs init "replicate 49 (Fin 0.01)" 1 1 "''normal''" None 5 0 1]
  have first: "printed_failure [''Error fitting GARCH model'']
       (snd (fit_garch sample_libs init (replicate 49 (Fin 0.01)) 1 1 ''normal''))"
    "printed_failure [''Error generating forecasts''] (forecast_volatility sample_libs None 5 0)"
    "printed_failure [''Error extracting model summary''] (get_model_summary None)"
    "printed_failure [''Error calculating residuals''] (calculate_residuals None)"
    "printed_failure [''Error calculating residuals'', ''Error performing Ljung-Box test'']
       (ljung_box_test sample_libs None 1)"
    by blast+
  from res sing
    failures_are_printed_and_None
      [of sample_libs init "[]" 1 1 "''normal''" "Some flat_fit" 5 0 1 "[1, 1, 1]"]
  have "arch_lm_test sample_libs (Some flat_fit) 1 = Failed None"
    by simp
  with first res show ?thesis
    by blast
qed

subsection \<open>Units of what is reported\<close>

text \<open>
  Claim C4.  \<^verbatim>\<open>fit_garch\<close> hands the library the returns times 100, so the fit it
  gets back is in percent.  \<^verbatim>\<open>forecast_volatility\<close> converts back: it divides the
  variances by 10000 and their roots by 100.  \<^verbatim>\<open>get_model_summary\<close> does not: the
  parameters, the log-likelihood, AIC and BIC it reports are the fields of the fit,
  unchanged, for every fit.  The example shows both on one fit whose library forecast of
  the variance is 4.
\<close>

theorem summary_reports_fit_unchanged:
  "get_model_summary (Some f) =
     Value \<lparr>parameters = param_dict (params f), summary_aic = aic f, summary_bic = bic f,
            summary_loglikelihood = loglikelihood f, num_observations = nobs f\<rparr> \<and>
   forecast_volatility sample_libs (Some sample_fit) 1 0 =
     Value \<lparr>volatility_forecast = [2 / 100], variance_forecast = [4 / 10000],
            forecast_horizon = 1\<rparr> \<and>
   (\<exists>r. get_model_summary (Some sample_fit) = Value r \<and> parameters r ''omega'' = Some 0.04)"
  by (simp add: get_model_summary_def get_model_summary_body_def forecast_volatility_def
      forecast_volatility_body_def sample_libs_def sample_fit_def param_dict_def)


subsection \<open>The Ljung-Box statistic\<close>

lemma sum_list_shift:
  "sum_list (map (\<lambda>i. g (Suc i)) [0..<L]) = (\<Sum>k = 1..L. g k)"
proof -
  have "sum_list (map (\<lambda>i. g (Suc i)) [0..<L]) = (\<Sum>i = 0..<L. g (Suc i))"
    by (simp add: interv_sum_list_conv_sum_set_nat)
  also have "\<dots> = (\<Sum>k = Suc 0..<Suc L. g k)"
    by (rule sum.shift_bounds_Suc_ivl[symmetric])
  also have "{Suc 0..<Suc L} = {1..L}"
    by auto
  finally show ?thesis .
qed

lemma ljung_box_body_value:
  assumes "lags < length z"
    and "\<forall>k\<in>{1..lags}. series_autocorr L (map (\<lambda>x. x ^ 2) z) k = Some (rho k)"
  shows "ljung_box_body L z lags =
     Ok \<lparr>test_statistic = ljung_box_Q (length z) lags rho,
         p_value = 1 - chi2_cdf L (ljung_box_Q (length z) lags rho) lags,
         test_lags = lags, critical_value = chi2_ppf L 0.95 lags\<rparr>"
proof -
  let ?sq = "map (\<lambda>x. x ^ 2) z"
  let ?ac = "map (\<lambda>lag. series_autocorr L ?sq lag) [1..<lags + 1]"
  have ac: "?ac ! i = Some (rho (Suc i))" if "i < lags" for i
  proof -
    from that have "[1..<lags + 1] ! i = Suc i" "i < length [1..<lags + 1]"
      by (simp_all del: upt_Suc)
    then have "?ac ! i = series_autocorr L ?sq (Suc i)"
      by (simp del: upt_Suc)
    moreover from that have "Suc i \<in> {1..lags}" by simp
    ultimately show ?thesis using assms(2) by simp
  qed
  have no_nan: "\<not> list_ex (\<lambda>c. c = None) ?ac"
    using assms(2) by (auto simp: list_ex_iff)
  have no_zero: "\<not> list_ex (\<lambda>i. int (length ?sq) - int i - 1 = 0) [0..<lags]"
    using assms(1) by (auto simp: list_ex_iff)
  have summand: "(the (?ac ! i)) ^ 2 / real_of_int (int (length ?sq) - int i - 1)
      = (rho (Suc i)) ^ 2 / (real (length z) - real (Suc i))" if "i < lags" for i
    unfolding ac[OF that] by simp
  have "sum_list (map (\<lambda>i. (the (?ac ! i)) ^ 2 / real_of_int (int (length ?sq) - int i - 1)) [0..<lags])
      = sum_list (map (\<lambda>i. (rho (Suc i)) ^ 2 / (real (length z) - real (Suc i))) [0..<lags])"
  proof (rule arg_cong[where f = sum_list], rule map_cong[OF refl])
    fix i assume "i \<in> set [0..<lags]"
    then have "i < lags" by simp
    then show "(the (?ac ! i)) ^ 2 / real_of_int (int (length ?sq) - int i - 1)
      = (rho (Suc i)) ^ 2 / (real (length z) - real (Suc i))"
      by (rule summand)
  qed
  also have "\<dots> = (\<Sum>k = 1..lags. (rho k) ^ 2 / (real (length z) - real k))"
    by (rule sum_list_shift)
  finally have stat: "real (length ?sq) * (real (length ?sq) + 2) *
      sum_list (map (\<lambda>i. (the (?ac ! i)) ^ 2 / real_of_int (int (length ?sq) - int i - 1)) [0..<lags])
      = ljung_box_Q (length z) lags rho"
    by (simp add: ljung_box_Q_def)
  show ?thesis
    unfolding ljung_box_body_def Let_def using no_nan no_zero by (simp only: stat if_False simp_thms)
qed

text \<open>
  Claim C2.  For standardized residuals \<open>z\<close> of length \<open>N > L + 1\<close>, of whose squares
  the library gives the autocorrelations \<open>\<rho>\<^sub>1, \<dots>, \<rho>\<^sub>L\<close>, the test returns the statistic
  \<open>Q = N (N + 2) \<Sum>\<^bsub>k = 1..L\<^esub> \<rho>\<^sub>k\<^sup>2 / (N - k)\<close>, the p-value \<open>1 - CDF(Q)\<close> of the
  chi-squared distribution with \<open>L\<close> degrees of freedom, and its 0.95 quantile as the
  critical value.
\<close>

theorem ljung_box_statistic:
  assumes "calculate_residuals fit = Value z" and "lags + 1 < length z"
    and "\<forall>k\<in>{1..lags}. series_autocorr L (map (\<lambda>x. x ^ 2) z) k = Some (rho k)"
  shows "ljung_box_test L fit lags =
     Value \<lparr>test_statistic = ljung_box_Q (length z) lags rho,
            p_value = 1 - chi2_cdf L (ljung_box_Q (length z) lags rho) lags,
            test_lags = lags, critical_value = chi2_ppf L 0.95 lags\<rparr>"
proof -
  from assms(2) have "lags < length z" by simp
  then have "ljung_box_body L z lags =
     Ok \<lparr>test_statistic = ljung_box_Q (length z) lags rho,
         p_value = 1 - chi2_cdf L (ljung_box_Q (length z) lags rho) lags,
         test_lags = lags, critical_value = chi2_ppf L 0.95 lags\<rparr>"
    using assms(3) by (rule ljung_box_body_value)
  with assms(1) show ?thesis
    by (simp add: ljung_box_test_def)
qed

theorem ljung_box_statistic_witness:
  "calculate_residuals (Some sample_fit) = Value [1, 2, 3, 1] \<and>
   ljung_box_Q 4 2 (\<lambda>k. 1 / 2) = 5 \<and>
   ljung_box_test sample_libs (Some sample_fit) 2 =
     Value \<lparr>test_statistic = 5, p_value = 1 / 6, test_lags = 2, critical_value = 2\<rparr>"
proof -
  have res: "calculate_residuals (Some sample_fit) = Value [1, 2, 3, 1]"
    by (simp add: calculate_residuals_def calculate_residuals_body_def sample_fit_def)
  have ac: "\<forall>k\<in>{1..2}. series_autocorr sample_libs (map (\<lambda>x. x ^ 2) [1, 2, 3, 1]) k = Some (1 / 2)"
    by (simp add: sample_libs_def)
  have "{1..2::nat} = {1, 2}" by auto
  then have Q: "ljung_box_Q 4 2 (\<lambda>k. 1 / 2) = 5"
    by (simp add: ljung_box_Q_def power2_eq_square)
  have "ljung_box_test sample_libs (Some sample_fit) 2 =
     Value \<lparr>test_statistic = ljung_box_Q (length [1, 2, 3, 1::real]) 2 (\<lambda>k. 1 / 2),
            p_value = 1 - chi2_cdf sample_libs (ljung_box_Q (length [1, 2, 3, 1::real]) 2 (\<lambda>k. 1 / 2)) 2,
            test_lags = 2, critical_value = chi2_ppf sample_libs 0.95 2\<rparr>"
    by (rule ljung_box_statistic[OF res _ ac]) simp
  moreover have "length [1, 2, 3, 1::real] = 4" by simp
  ultimately have "ljung_box_test sample_libs (Some sample_fit) 2 =
     Value \<lparr>test_statistic = 5, p_value = 1 - chi2_cdf sample_libs 5 2,
            test_lags = 2, critical_value = chi2_ppf sample_libs 0.95 2\<rparr>"
    by (simp only: Q)
  then have "ljung_box_test sample_libs (Some sample_fit) 2 =
     Value \<lparr>test_statistic = 5, p_value = 1 / 6, test_lags = 2, critical_value = 2\<rparr>"
    by (simp add: sample_libs_def)
  with res Q show ?thesis by simp
qed


subsection \<open>The ARCH-LM regression\<close>








end
